theory Spec2Isabelle
  imports Complex_Main
begin

section \<open>Values of the host language\<close>

text \<open>
  The server is a TypeScript module (\<^verbatim>\<open>src/index.ts\<close>). Strings are modelled as the
  UTF-8 bytes of the JavaScript string, which is what the HTTP client puts on the wire and
  what the HMAC is computed over. A JavaScript number is a double: the finite ones are
  modelled by the rational they denote, the three others by constructors of their own
  (negative zero is not distinguished from zero; both serialise as \<^verbatim>\<open>0\<close>).
\<close>

datatype number = Finite rat | PosInfinity | NegInfinity | NaN

text \<open>
  A JSON value as \<^verbatim>\<open>JSON.parse\<close> returns it and as the object literals of the handlers
  build it. An object keeps its properties in enumeration order, so it is an association
  list.
\<close>

datatype json =
    JNull
  | JBool bool
  | JNum number
  | JStr string
  | JArr "json list"
  | JObj "(string \<times> json) list"

text \<open>A thrown \<^verbatim>\<open>Error\<close>; the handlers only ever read its \<^verbatim>\<open>message\<close>.\<close>

datatype error = Error (message: string)

text \<open>A value that the schema declares \<^verbatim>\<open>.nullable()\<close>.\<close>

datatype 'a nullable = Null | NotNull 'a

text \<open>
  The operator \<^verbatim>\<open>a ?? b\<close> on a value that may be \<^verbatim>\<open>undefined\<close>
  (\<open>None\<close>).
\<close>

definition nullish :: "'a option \<Rightarrow> 'a \<Rightarrow> 'a" where
  "nullish a b = (case a of None \<Rightarrow> b | Some v \<Rightarrow> v)"

subsection \<open>Number to string\<close>

definition digit_char :: "nat \<Rightarrow> char" where
  "digit_char d = ''0123456789abcdef'' ! (d mod 16)"

fun nat_toString :: "nat \<Rightarrow> string" where
  "nat_toString n =
     (if n < 10 then [digit_char n] else nat_toString (n div 10) @ [digit_char (n mod 10)])"

declare nat_toString.simps [simp del]

definition int_toString :: "int \<Rightarrow> string" where
  "int_toString i =
     (if i < 0 then CHR ''-'' # nat_toString (nat (- i)) else nat_toString (nat i))"

text \<open>
  \<^verbatim>\<open>Number.isSafeInteger\<close>: an integer of magnitude at most \<open>2^53 - 1\<close>. On these
  \<^verbatim>\<open>Number.prototype.toString\<close> prints the decimal digits of the integer. What it
  prints for any other finite number (the shortest digits that read back as the same
  double, with an exponent from \<open>10^21\<close> on) is left to the runtime, see
  \<open>Number_toString_other\<close> below.
\<close>

definition isSafeInteger :: "rat \<Rightarrow> bool" where
  "isSafeInteger r = (of_int \<lfloor>r\<rfloor> = r \<and> \<bar>r\<bar> \<le> 9007199254740991)"

definition Number_toString :: "(rat \<Rightarrow> string) \<Rightarrow> number \<Rightarrow> string" where
  "Number_toString other n =
     (case n of
        Finite r \<Rightarrow> if isSafeInteger r then int_toString \<lfloor>r\<rfloor> else other r
      | PosInfinity \<Rightarrow> ''Infinity''
      | NegInfinity \<Rightarrow> ''-Infinity''
      | NaN \<Rightarrow> ''NaN'')"

subsection \<open>\<^verbatim>\<open>JSON.stringify\<close>\<close>

text \<open>
  \<^verbatim>\<open>QuoteJSONString\<close> of the language standard: the quote, the backslash and the
  control characters below \<open>0x20\<close> are escaped; every other byte is copied.
\<close>

definition escape_char :: "char \<Rightarrow> string" where
  "escape_char c =
     (if c = CHR 0x22 then [CHR 0x5C, CHR 0x22]
      else if c = CHR 0x5C then [CHR 0x5C, CHR 0x5C]
      else if c = CHR 0x08 then [CHR 0x5C, CHR ''b'']
      else if c = CHR 0x0C then [CHR 0x5C, CHR ''f'']
      else if c = CHR 0x0A then [CHR 0x5C, CHR ''n'']
      else if c = CHR 0x0D then [CHR 0x5C, CHR ''r'']
      else if c = CHR 0x09 then [CHR 0x5C, CHR ''t'']
      else if (of_char c :: nat) < 32
        then [CHR 0x5C, CHR ''u'', CHR ''0'', CHR ''0'',
              digit_char (of_char c div 16), digit_char (of_char c mod 16)]
      else [c])"

definition QuoteJSONString :: "string \<Rightarrow> string" where
  "QuoteJSONString s = [CHR 0x22] @ concat (map escape_char s) @ [CHR 0x22]"

fun join :: "string \<Rightarrow> string list \<Rightarrow> string" where
  "join sep [] = []"
| "join sep [x] = x"
| "join sep (x # y # ys) = x @ sep @ join sep (y # ys)"

text \<open>
  \<^verbatim>\<open>SerializeJSONProperty\<close> with its two pieces of state, the \<open>gap\<close> (empty for
  \<^verbatim>\<open>JSON.stringify(v)\<close>, two spaces for \<^verbatim>\<open>JSON.stringify(v, null, 2)\<close>) and the
  current \<open>indent\<close>. A number that is not finite serialises as \<^verbatim>\<open>null\<close>.
\<close>

fun SerializeJSONProperty :: "(rat \<Rightarrow> string) \<Rightarrow> string \<Rightarrow> string \<Rightarrow> json \<Rightarrow> string" where
  "SerializeJSONProperty other gap indent JNull = ''null''"
| "SerializeJSONProperty other gap indent (JBool b) = (if b then ''true'' else ''false'')"
| "SerializeJSONProperty other gap indent (JNum n) =
     (case n of Finite r \<Rightarrow> Number_toString other (Finite r) | _ \<Rightarrow> ''null'')"
| "SerializeJSONProperty other gap indent (JStr s) = QuoteJSONString s"
| "SerializeJSONProperty other gap indent (JArr vs) =
     (let partial = map (SerializeJSONProperty other gap (indent @ gap)) vs
      in if partial = [] then ''[]''
         else if gap = [] then ''['' @ join '','' partial @ '']''
         else ''['' @ [CHR 0x0A] @ (indent @ gap)
              @ join ('','' @ [CHR 0x0A] @ (indent @ gap)) partial
              @ [CHR 0x0A] @ indent @ '']'')"
| "SerializeJSONProperty other gap indent (JObj ps) =
     (let partial =
            map (\<lambda>p. QuoteJSONString (fst p) @ '':'' @ (if gap = [] then [] else '' '')
                       @ SerializeJSONProperty other gap (indent @ gap) (snd p)) ps
      in if partial = [] then ''{}''
         else if gap = [] then ''{'' @ join '','' partial @ ''}''
         else ''{'' @ [CHR 0x0A] @ (indent @ gap)
              @ join ('','' @ [CHR 0x0A] @ (indent @ gap)) partial
              @ [CHR 0x0A] @ indent @ ''}'')"

subsection \<open>\<^verbatim>\<open>parseInt\<close>\<close>

text \<open>
  \<^verbatim>\<open>parseInt(string)\<close> with no radix: leading white space is skipped, a sign is
  read, a prefix \<^verbatim>\<open>0x\<close> selects radix 16, and the longest run of digits of the radix is
  the value; with no digit the result is \<^verbatim>\<open>NaN\<close>.
\<close>

definition isStrWhiteSpaceChar :: "char \<Rightarrow> bool" where
  "isStrWhiteSpaceChar c = (c \<in> set [CHR 0x09, CHR 0x0A, CHR 0x0B, CHR 0x0C, CHR 0x0D, CHR 0x20])"

definition digit_value :: "char \<Rightarrow> nat" where
  "digit_value c =
     (let n = (of_char c :: nat)
      in if 48 \<le> n \<and> n \<le> 57 then n - 48
         else if 97 \<le> n \<and> n \<le> 122 then n - 87
         else if 65 \<le> n \<and> n \<le> 90 then n - 55
         else 36)"

definition digits_value :: "nat \<Rightarrow> string \<Rightarrow> nat" where
  "digits_value radix ds = foldl (\<lambda>a c. a * radix + digit_value c) 0 ds"

definition parseInt :: "string \<Rightarrow> number" where
  "parseInt string =
     (let s1 = dropWhile isStrWhiteSpaceChar string;
          sign = (if take 1 s1 = ''-'' then - 1 else (1 :: int));
          s2 = (if take 1 s1 = ''-'' \<or> take 1 s1 = ''+'' then drop 1 s1 else s1);
          radix = (if take 2 s2 = ''0x'' \<or> take 2 s2 = ''0X'' then 16 else (10 :: nat));
          s3 = (if radix = 16 then drop 2 s2 else s2);
          ds = takeWhile (\<lambda>c. digit_value c < radix) s3
      in if ds = [] then NaN else Finite (of_int (sign * int (digits_value radix ds))))"

section \<open>The runtime and the outbound requests\<close>

text \<open>
  What \<^verbatim>\<open>axios.post(url, data, {headers})\<close> is called with. The method is fixed by
  the function called.
\<close>

record request =
  http_method :: string
  url :: string
  data :: string
  headers :: "(string \<times> string) list"

text \<open>
  Everything a tool invocation reads from outside the module: the clock
  (\<^verbatim>\<open>Date.now()\<close>, milliseconds since the epoch), the keyed hash of Node's
  \<^verbatim>\<open>crypto\<close> (\<^verbatim>\<open>createHmac("sha256", key).update(data).digest("hex")\<close>), the remote
  service behind \<^verbatim>\<open>axios.post\<close> (\<open>Inr\<close> is \<^verbatim>\<open>response.data\<close>, \<open>Inl\<close> the error it
  throws on a transport failure or a non-success status), \<^verbatim>\<open>JSON.parse\<close> (\<open>Inl\<close> is
  the \<^verbatim>\<open>SyntaxError\<close> it throws), and the digits of a number that is not a safe integer.
  Every theorem below holds for every runtime.
\<close>

record runtime =
  Date_now :: int
  createHmac_sha256_hex :: "string \<Rightarrow> string \<Rightarrow> string"
  axios_post :: "request \<Rightarrow> error + json"
  JSON_parse :: "string \<Rightarrow> error + json"
  Number_toString_other :: "rat \<Rightarrow> string"

definition JSON_stringify :: "runtime \<Rightarrow> json \<Rightarrow> string" where
  "JSON_stringify rt v = SerializeJSONProperty (Number_toString_other rt) [] [] v"

text \<open>
  An \<^verbatim>\<open>async\<close> computation: it is fulfilled with a value (\<open>Inr\<close>) or rejected with
  an error (\<open>Inl\<close>), and it has issued the requests listed, oldest first.
\<close>

type_synonym 'a async = "(error + 'a) \<times> request list"

definition resolve :: "'a \<Rightarrow> 'a async" where
  "resolve x = (Inr x, [])"

definition reject :: "error \<Rightarrow> 'a async" where
  "reject e = (Inl e, [])"

definition await :: "'a async \<Rightarrow> ('a \<Rightarrow> 'b async) \<Rightarrow> 'b async" where
  "await m f =
     (case m of
        (Inl e, rs) \<Rightarrow> (Inl e, rs)
      | (Inr x, rs) \<Rightarrow> (case f x of (r, rs') \<Rightarrow> (r, rs @ rs')))"

definition try_catch :: "'a async \<Rightarrow> (error \<Rightarrow> 'a async) \<Rightarrow> 'a async" where
  "try_catch m handler =
     (case m of
        (Inl e, rs) \<Rightarrow> (case handler e of (r, rs') \<Rightarrow> (r, rs @ rs'))
      | (Inr x, rs) \<Rightarrow> (Inr x, rs))"

text \<open>A synchronous call that may throw, such as \<^verbatim>\<open>JSON.parse\<close>.\<close>

definition sync :: "error + 'a \<Rightarrow> 'a async" where
  "sync r = (r, [])"

definition post :: "runtime \<Rightarrow> string \<Rightarrow> string \<Rightarrow> (string \<times> string) list \<Rightarrow> json async" where
  "post rt u d hs =
     (let req = \<lparr>http_method = ''POST'', url = u, data = d, headers = hs\<rparr>
      in (axios_post rt req, [req]))"

section \<open>Configuration\<close>

text \<open>
  \<^verbatim>\<open>process.env\<close> is a dictionary from variable names to strings; the three constants
  of the module are read from it once, with \<^verbatim>\<open>??\<close> giving the default of an absent
  variable.
\<close>

type_synonym process_env = "string \<Rightarrow> string option"

definition PUBLIC_KEY :: "process_env \<Rightarrow> string" where
  "PUBLIC_KEY env = nullish (env ''TRADERNET_PUBLIC_KEY'') ''''"

definition PRIVATE_KEY :: "process_env \<Rightarrow> string" where
  "PRIVATE_KEY env = nullish (env ''TRADERNET_PRIVATE_KEY'') ''''"

definition API_BASE :: "process_env \<Rightarrow> string" where
  "API_BASE env = nullish (env ''TRADERNET_API_URL'') ''https://tradernet.com/api''"

section \<open>The API client\<close>

definition generateSignature :: "runtime \<Rightarrow> process_env \<Rightarrow> string \<Rightarrow> string" where
  "generateSignature rt env d = createHmac_sha256_hex rt (PRIVATE_KEY env) d"

text \<open>
  \<^verbatim>\<open>callApi\<close>. A string is falsy exactly when it is empty. The time stamp is
  \<^verbatim>\<open>Math.floor(Date.now() / 1000).toString()\<close>: \<^verbatim>\<open>Date.now()\<close> is an integer of
  magnitude at most \<open>8.64 * 10^15\<close>, so the quotient is floored to a safe integer (integer
  division on \<open>int\<close> floors as well) and is printed in decimal digits.
\<close>

definition callApi :: "runtime \<Rightarrow> process_env \<Rightarrow> string \<Rightarrow> json \<Rightarrow> json async" where
  "callApi rt env command params =
     (if PUBLIC_KEY env = [] \<or> PRIVATE_KEY env = []
      then reject (Error
        ''TRADERNET_PUBLIC_KEY and TRADERNET_PRIVATE_KEY environment variables are required'')
      else
        let timeStamp = int_toString (Date_now rt div 1000);
            payload = JSON_stringify rt params;
            headers =
              [(''Content-Type'', ''application/json''),
               (''X-NtApi-PublicKey'', PUBLIC_KEY env),
               (''X-NtApi-Timestamp'', timeStamp),
               (''X-NtApi-Sig'', generateSignature rt env (payload @ timeStamp))]
        in post rt (API_BASE env @ ''/'' @ command) payload headers)"

definition formatResult :: "runtime \<Rightarrow> json \<Rightarrow> string" where
  "formatResult rt d = SerializeJSONProperty (Number_toString_other rt) ''  '' [] d"


section \<open>The tools\<close>

subsection \<open>The closed enumerations of the parameter schemas\<close>

text \<open>
  Each \<^verbatim>\<open>z.enum([...])\<close> of a schema is a datatype with one constructor for each
  string it lists, and a function that gives the string back where the handler uses it
  as a string.
\<close>

datatype action = Buy | Buy_margin | Sell | Sell_short

datatype order_type = Market | Limit | Stop | Stop_limit

datatype expiration = Day | Day_ext | Gtc

datatype timeframe = TF_1 | TF_5 | TF_15 | TF_60 | TF_1440

datatype trigger_type =
    Crossing | Crossing_down | Crossing_up | Less_then | Greater_then
  | Channel_in | Channel_out
  | Moving_down_from_current | Moving_up_from_current
  | Moving_down_from_maximum | Moving_up_from_minimum

datatype quote_type = Ltp | Bap | Bbp | Op | Pp

datatype notification_type = Email | Sms | Push | All

datatype alert_period = AP_0 | AP_60 | AP_300 | AP_900 | AP_3600 | AP_86400

fun action_str :: "action \<Rightarrow> string" where
  "action_str Buy = ''buy''"
| "action_str Buy_margin = ''buy_margin''"
| "action_str Sell = ''sell''"
| "action_str Sell_short = ''sell_short''"

fun order_type_str :: "order_type \<Rightarrow> string" where
  "order_type_str Market = ''market''"
| "order_type_str Limit = ''limit''"
| "order_type_str Stop = ''stop''"
| "order_type_str Stop_limit = ''stop_limit''"

fun expiration_str :: "expiration \<Rightarrow> string" where
  "expiration_str Day = ''day''"
| "expiration_str Day_ext = ''day_ext''"
| "expiration_str Gtc = ''gtc''"

fun timeframe_str :: "timeframe \<Rightarrow> string" where
  "timeframe_str TF_1 = ''1''"
| "timeframe_str TF_5 = ''5''"
| "timeframe_str TF_15 = ''15''"
| "timeframe_str TF_60 = ''60''"
| "timeframe_str TF_1440 = ''1440''"

fun trigger_type_str :: "trigger_type \<Rightarrow> string" where
  "trigger_type_str Crossing = ''crossing''"
| "trigger_type_str Crossing_down = ''crossing_down''"
| "trigger_type_str Crossing_up = ''crossing_up''"
| "trigger_type_str Less_then = ''less_then''"
| "trigger_type_str Greater_then = ''greater_then''"
| "trigger_type_str Channel_in = ''channel_in''"
| "trigger_type_str Channel_out = ''channel_out''"
| "trigger_type_str Moving_down_from_current = ''moving_down_from_current''"
| "trigger_type_str Moving_up_from_current = ''moving_up_from_current''"
| "trigger_type_str Moving_down_from_maximum = ''moving_down_from_maximum''"
| "trigger_type_str Moving_up_from_minimum = ''moving_up_from_minimum''"

fun quote_type_str :: "quote_type \<Rightarrow> string" where
  "quote_type_str Ltp = ''ltp''"
| "quote_type_str Bap = ''bap''"
| "quote_type_str Bbp = ''bbp''"
| "quote_type_str Op = ''op''"
| "quote_type_str Pp = ''pp''"

fun notification_type_str :: "notification_type \<Rightarrow> string" where
  "notification_type_str Email = ''email''"
| "notification_type_str Sms = ''sms''"
| "notification_type_str Push = ''push''"
| "notification_type_str All = ''all''"

fun alert_period_str :: "alert_period \<Rightarrow> string" where
  "alert_period_str AP_0 = ''0''"
| "alert_period_str AP_60 = ''60''"
| "alert_period_str AP_300 = ''300''"
| "alert_period_str AP_900 = ''900''"
| "alert_period_str AP_3600 = ''3600''"
| "alert_period_str AP_86400 = ''86400''"

text \<open>A nullable number as a property value: \<^verbatim>\<open>null\<close> stays \<^verbatim>\<open>null\<close>.\<close>

fun json_of_nullable :: "number nullable \<Rightarrow> json" where
  "json_of_nullable Null = JNull"
| "json_of_nullable (NotNull n) = JNum n"

subsection \<open>The response envelope\<close>

text \<open>
  One item of \<^verbatim>\<open>content\<close>, \<^verbatim>\<open>{type: "text", text: ...}\<close>. The property
  \<^verbatim>\<open>text\<close> is the field \<open>text'\<close>, since \<^verbatim>\<open>text\<close> is a keyword of the theory language.
\<close>

record content_item =
  type :: string
  text' :: string

text \<open>
  \<open>isError\<close> is \<open>None\<close> where the object literal has no such property (the success
  shape) and \<open>Some True\<close> where it has \<^verbatim>\<open>isError: true\<close>.
\<close>

record envelope =
  content :: "content_item list"
  isError :: "bool option"

subsection \<open>The handlers\<close>

text \<open>
  Each handler is the body of the \<^verbatim>\<open>async\<close> arrow function registered for the tool,
  with its destructured parameters as arguments: a \<^verbatim>\<open>try\<close> block that awaits
  \<^verbatim>\<open>callApi\<close> and returns the success envelope, and a \<^verbatim>\<open>catch\<close> block that returns
  the error envelope.
\<close>

definition get_user_data :: "runtime \<Rightarrow> process_env \<Rightarrow> envelope async" where
  "get_user_data rt env =
     try_catch
       (await (callApi rt env ''getOPQ'' (JObj []))
          (\<lambda>d. resolve \<lparr>content = [\<lparr>type = ''text'', text' = formatResult rt d\<rparr>],
                         isError = None\<rparr>))
       (\<lambda>e. resolve \<lparr>content = [\<lparr>type = ''text'', text' = ''Error: '' @ message e\<rparr>],
                      isError = Some True\<rparr>)"

definition get_portfolio :: "runtime \<Rightarrow> process_env \<Rightarrow> envelope async" where
  "get_portfolio rt env =
     try_catch
       (await (callApi rt env ''getPositionJson'' (JObj []))
          (\<lambda>d. resolve \<lparr>content = [\<lparr>type = ''text'', text' = formatResult rt d\<rparr>],
                         isError = None\<rparr>))
       (\<lambda>e. resolve \<lparr>content = [\<lparr>type = ''text'', text' = ''Error: '' @ message e\<rparr>],
                      isError = Some True\<rparr>)"

fun actionMap :: "action \<Rightarrow> number" where
  "actionMap Buy = Finite 1"
| "actionMap Buy_margin = Finite 2"
| "actionMap Sell = Finite 3"
| "actionMap Sell_short = Finite 4"

fun typeMap :: "order_type \<Rightarrow> number" where
  "typeMap Market = Finite 1"
| "typeMap Limit = Finite 2"
| "typeMap Stop = Finite 3"
| "typeMap Stop_limit = Finite 4"

fun expMap :: "expiration \<Rightarrow> number" where
  "expMap Day = Finite 1"
| "expMap Day_ext = Finite 2"
| "expMap Gtc = Finite 3"

definition place_order ::
  "runtime \<Rightarrow> process_env \<Rightarrow> string \<Rightarrow> action \<Rightarrow> order_type \<Rightarrow> number
     \<Rightarrow> number option \<Rightarrow> number option \<Rightarrow> expiration \<Rightarrow> envelope async" where
  "place_order rt env instrument action order_type quantity limit_price stop_price expiration =
     try_catch
       (await (callApi rt env ''putTradeOrder'' (JObj
            [(''instr_name'', JStr instrument),
             (''action_id'', JNum (actionMap action)),
             (''order_type_id'', JNum (typeMap order_type)),
             (''qty'', JNum quantity),
             (''limit_price'', JNum (nullish limit_price (Finite 0))),
             (''stop_price'', JNum (nullish stop_price (Finite 0))),
             (''expiration_id'', JNum (expMap expiration))]))
          (\<lambda>d. resolve \<lparr>content = [\<lparr>type = ''text'', text' = formatResult rt d\<rparr>],
                         isError = None\<rparr>))
       (\<lambda>e. resolve \<lparr>content = [\<lparr>type = ''text'', text' = ''Error: '' @ message e\<rparr>],
                      isError = Some True\<rparr>)"

definition cancel_order :: "runtime \<Rightarrow> process_env \<Rightarrow> number \<Rightarrow> envelope async" where
  "cancel_order rt env order_id =
     try_catch
       (await (callApi rt env ''delTradeOrder'' (JObj [(''order_id'', JNum order_id)]))
          (\<lambda>d. resolve \<lparr>content = [\<lparr>type = ''text'', text' = formatResult rt d\<rparr>],
                         isError = None\<rparr>))
       (\<lambda>e. resolve \<lparr>content = [\<lparr>type = ''text'', text' = ''Error: '' @ message e\<rparr>],
                      isError = Some True\<rparr>)"

definition set_stop_loss_take_profit ::
  "runtime \<Rightarrow> process_env \<Rightarrow> string \<Rightarrow> number nullable \<Rightarrow> number nullable
     \<Rightarrow> number nullable option \<Rightarrow> envelope async" where
  "set_stop_loss_take_profit rt env instrument stop_loss take_profit trailing_stop_percent =
     try_catch
       (await (callApi rt env ''putStopLoss'' (JObj
            [(''instr_name'', JStr instrument),
             (''stop_loss'', json_of_nullable stop_loss),
             (''take_profit'', json_of_nullable take_profit),
             (''stoploss_trailing_percent'',
                json_of_nullable (nullish trailing_stop_percent Null))]))
          (\<lambda>d. resolve \<lparr>content = [\<lparr>type = ''text'', text' = formatResult rt d\<rparr>],
                         isError = None\<rparr>))
       (\<lambda>e. resolve \<lparr>content = [\<lparr>type = ''text'', text' = ''Error: '' @ message e\<rparr>],
                      isError = Some True\<rparr>)"

definition get_security_info :: "runtime \<Rightarrow> process_env \<Rightarrow> string \<Rightarrow> envelope async" where
  "get_security_info rt env ticker =
     try_catch
       (await (callApi rt env ''getSecurityInfo'' (JObj
            [(''ticker'', JStr ticker), (''sup'', JBool True)]))
          (\<lambda>d. resolve \<lparr>content = [\<lparr>type = ''text'', text' = formatResult rt d\<rparr>],
                         isError = None\<rparr>))
       (\<lambda>e. resolve \<lparr>content = [\<lparr>type = ''text'', text' = ''Error: '' @ message e\<rparr>],
                      isError = Some True\<rparr>)"

definition get_quotes_history ::
  "runtime \<Rightarrow> process_env \<Rightarrow> string \<Rightarrow> timeframe \<Rightarrow> string \<Rightarrow> string \<Rightarrow> number
     \<Rightarrow> envelope async" where
  "get_quotes_history rt env ticker timeframe date_from date_to count =
     try_catch
       (await (callApi rt env ''getHloc'' (JObj
            [(''id'', JStr ticker),
             (''timeframe'', JNum (parseInt (timeframe_str timeframe))),
             (''date_from'', JStr date_from),
             (''date_to'', JStr date_to),
             (''count'', JNum count),
             (''intervalMode'', JStr ''ClosedRay'')]))
          (\<lambda>d. resolve \<lparr>content = [\<lparr>type = ''text'', text' = formatResult rt d\<rparr>],
                         isError = None\<rparr>))
       (\<lambda>e. resolve \<lparr>content = [\<lparr>type = ''text'', text' = ''Error: '' @ message e\<rparr>],
                      isError = Some True\<rparr>)"

definition search_tickers :: "runtime \<Rightarrow> process_env \<Rightarrow> string \<Rightarrow> envelope async" where
  "search_tickers rt env query =
     try_catch
       (await (callApi rt env ''tickerFinder'' (JObj [(''text'', JStr query)]))
          (\<lambda>d. resolve \<lparr>content = [\<lparr>type = ''text'', text' = formatResult rt d\<rparr>],
                         isError = None\<rparr>))
       (\<lambda>e. resolve \<lparr>content = [\<lparr>type = ''text'', text' = ''Error: '' @ message e\<rparr>],
                      isError = Some True\<rparr>)"

definition add_price_alert ::
  "runtime \<Rightarrow> process_env \<Rightarrow> string \<Rightarrow> string \<Rightarrow> trigger_type \<Rightarrow> quote_type
     \<Rightarrow> notification_type \<Rightarrow> alert_period \<Rightarrow> envelope async" where
  "add_price_alert rt env ticker price trigger_type quote_type notification_type alert_period =
     try_catch
       (await (callApi rt env ''togglePriceAlert'' (JObj
            [(''ticker'', JStr ticker),
             (''price'', JObj [(''price'', JStr price)]),
             (''trigger_type'', JStr (trigger_type_str trigger_type)),
             (''quote_type'', JStr (quote_type_str quote_type)),
             (''notification_type'', JStr (notification_type_str notification_type)),
             (''alert_period'', JStr (alert_period_str alert_period)),
             (''expire'', JNum (Finite 0))]))
          (\<lambda>d. resolve \<lparr>content = [\<lparr>type = ''text'', text' = formatResult rt d\<rparr>],
                         isError = None\<rparr>))
       (\<lambda>e. resolve \<lparr>content = [\<lparr>type = ''text'', text' = ''Error: '' @ message e\<rparr>],
                      isError = Some True\<rparr>)"

definition delete_price_alert :: "runtime \<Rightarrow> process_env \<Rightarrow> number \<Rightarrow> envelope async" where
  "delete_price_alert rt env alert_id =
     try_catch
       (await (callApi rt env ''togglePriceAlert'' (JObj
            [(''id'', JNum alert_id),
             (''del'', JBool True),
             (''quote_type'', JStr ''ltp''),
             (''notification_type'', JStr ''email'')]))
          (\<lambda>d. resolve \<lparr>content = [\<lparr>type = ''text'', text' = formatResult rt d\<rparr>],
                         isError = None\<rparr>))
       (\<lambda>e. resolve \<lparr>content = [\<lparr>type = ''text'', text' = ''Error: '' @ message e\<rparr>],
                      isError = Some True\<rparr>)"

definition get_security_sessions :: "runtime \<Rightarrow> process_env \<Rightarrow> envelope async" where
  "get_security_sessions rt env =
     try_catch
       (await (callApi rt env ''getSecuritySessions'' (JObj []))
          (\<lambda>d. resolve \<lparr>content = [\<lparr>type = ''text'', text' = formatResult rt d\<rparr>],
                         isError = None\<rparr>))
       (\<lambda>e. resolve \<lparr>content = [\<lparr>type = ''text'', text' = ''Error: '' @ message e\<rparr>],
                      isError = Some True\<rparr>)"

text \<open>
  \<^verbatim>\<open>raw_api_call\<close> parses its \<^verbatim>\<open>params\<close> string inside the \<^verbatim>\<open>try\<close> block, before
  \<^verbatim>\<open>callApi\<close> is reached; both branches of the conditional on \<^verbatim>\<open>use_v2\<close> are
  written out as the source has them.
\<close>

definition raw_api_call ::
  "runtime \<Rightarrow> process_env \<Rightarrow> string \<Rightarrow> string \<Rightarrow> bool \<Rightarrow> envelope async" where
  "raw_api_call rt env command params use_v2 =
     try_catch
       (await (sync (JSON_parse rt params))
          (\<lambda>parsed.
             await (if use_v2 then callApi rt env command parsed
                    else callApi rt env command parsed)
               (\<lambda>d. resolve \<lparr>content = [\<lparr>type = ''text'', text' = formatResult rt d\<rparr>],
                              isError = None\<rparr>)))
       (\<lambda>e. resolve \<lparr>content = [\<lparr>type = ''text'', text' = ''Error: '' @ message e\<rparr>],
                      isError = Some True\<rparr>)"

subsection \<open>The registry\<close>

text \<open>
  A validated call of one of the twelve tools that \<^verbatim>\<open>registerTools\<close> registers: the
  tool and the parameters its schema hands to the handler (defaults already applied).
\<close>

datatype tool_call =
    Get_user_data
  | Get_portfolio
  | Place_order string action order_type number "number option" "number option" expiration
  | Cancel_order number
  | Set_stop_loss_take_profit string "number nullable" "number nullable" "number nullable option"
  | Get_security_info string
  | Get_quotes_history string timeframe string string number
  | Search_tickers string
  | Add_price_alert string string trigger_type quote_type notification_type alert_period
  | Delete_price_alert number
  | Get_security_sessions
  | Raw_api_call string string bool

fun registerTools :: "runtime \<Rightarrow> process_env \<Rightarrow> tool_call \<Rightarrow> envelope async" where
  "registerTools rt env Get_user_data = get_user_data rt env"
| "registerTools rt env Get_portfolio = get_portfolio rt env"
| "registerTools rt env (Place_order i a t q l s x) = place_order rt env i a t q l s x"
| "registerTools rt env (Cancel_order i) = cancel_order rt env i"
| "registerTools rt env (Set_stop_loss_take_profit i s t p) =
     set_stop_loss_take_profit rt env i s t p"
| "registerTools rt env (Get_security_info t) = get_security_info rt env t"
| "registerTools rt env (Get_quotes_history t f d1 d2 c) = get_quotes_history rt env t f d1 d2 c"
| "registerTools rt env (Search_tickers q) = search_tickers rt env q"
| "registerTools rt env (Add_price_alert t p g q n a) = add_price_alert rt env t p g q n a"
| "registerTools rt env (Delete_price_alert i) = delete_price_alert rt env i"
| "registerTools rt env Get_security_sessions = get_security_sessions rt env"
| "registerTools rt env (Raw_api_call c p v) = raw_api_call rt env c p v"

text \<open>
  The schema of \<^verbatim>\<open>place_order\<close> on what a client sends: \<^verbatim>\<open>quantity\<close> is
  \<^verbatim>\<open>z.number().int().positive()\<close>, the two prices are optional numbers (\<^verbatim>\<open>z.number()\<close>
  refuses \<^verbatim>\<open>NaN\<close>), and \<^verbatim>\<open>expiration\<close> has \<^verbatim>\<open>.default("day")\<close>. \<open>None\<close> is a
  validation failure, which the framework reports without running the handler.
\<close>

definition z_number :: "number \<Rightarrow> bool" where
  "z_number n = (n \<noteq> NaN)"

definition z_int :: "number \<Rightarrow> bool" where
  "z_int n = (case n of Finite r \<Rightarrow> of_int \<lfloor>r\<rfloor> = r | _ \<Rightarrow> False)"

definition z_positive :: "number \<Rightarrow> bool" where
  "z_positive n = (case n of Finite r \<Rightarrow> 0 < r | PosInfinity \<Rightarrow> True | _ \<Rightarrow> False)"

definition place_order_schema ::
  "string \<Rightarrow> action \<Rightarrow> order_type \<Rightarrow> number \<Rightarrow> number option \<Rightarrow> number option
     \<Rightarrow> expiration option \<Rightarrow> tool_call option" where
  "place_order_schema instrument action order_type quantity limit_price stop_price expiration =
     (if z_number quantity \<and> z_int quantity \<and> z_positive quantity
         \<and> (case limit_price of None \<Rightarrow> True | Some p \<Rightarrow> z_number p)
         \<and> (case stop_price of None \<Rightarrow> True | Some p \<Rightarrow> z_number p)
      then Some (Place_order instrument action order_type quantity limit_price stop_price
                   (nullish expiration Day))
      else None)"


section \<open>A concrete runtime\<close>

text \<open>
  The theorems are about every runtime. To run the model on concrete inputs one runtime is
  written out here: a parser for the JSON grammar in the place of \<^verbatim>\<open>JSON.parse\<close>, a
  fixed clock, a remote service given as a parameter, and a keyed hash that spells out the
  key and the data it was given.
\<close>

subsection \<open>A parser for JSON texts\<close>

definition isJSONWhiteSpace :: "char \<Rightarrow> bool" where
  "isJSONWhiteSpace c = (c \<in> set [CHR 0x09, CHR 0x0A, CHR 0x0D, CHR 0x20])"

definition skip_ws :: "string \<Rightarrow> string" where
  "skip_ws s = dropWhile isJSONWhiteSpace s"

definition isDigit :: "char \<Rightarrow> bool" where
  "isDigit c = (digit_value c < 10)"

definition isHexDigit :: "char \<Rightarrow> bool" where
  "isHexDigit c = (digit_value c < 16)"

text \<open>The UTF-8 bytes of a code point.\<close>

definition utf8 :: "nat \<Rightarrow> string" where
  "utf8 n =
     (if n < 0x80 then [char_of n]
      else if n < 0x800 then [char_of (0xC0 + n div 64), char_of (0x80 + n mod 64)]
      else if n < 0x10000 then
        [char_of (0xE0 + n div 4096), char_of (0x80 + n div 64 mod 64), char_of (0x80 + n mod 64)]
      else
        [char_of (0xF0 + n div 262144), char_of (0x80 + n div 4096 mod 64),
         char_of (0x80 + n div 64 mod 64), char_of (0x80 + n mod 64)])"

definition hex4 :: "string \<Rightarrow> nat option" where
  "hex4 s =
     (if length (take 4 s) = 4 \<and> list_all isHexDigit (take 4 s)
      then Some (digits_value 16 (take 4 s)) else None)"

definition unescape :: "char \<Rightarrow> char option" where
  "unescape e =
     (if e = CHR 0x22 \<or> e = CHR 0x5C \<or> e = CHR ''/'' then Some e
      else if e = CHR ''b'' then Some (CHR 0x08)
      else if e = CHR ''f'' then Some (CHR 0x0C)
      else if e = CHR ''n'' then Some (CHR 0x0A)
      else if e = CHR ''r'' then Some (CHR 0x0D)
      else if e = CHR ''t'' then Some (CHR 0x09)
      else None)"

text \<open>
  The code point of a \<^verbatim>\<open>\u\<close> escape whose four digits gave \<open>u\<close>, and the number of
  characters it takes after them: a high surrogate followed by an escaped low surrogate
  is one code point, a surrogate on its own is replaced by \<open>U+FFFD\<close> (what the UTF-8
  encoder makes of it).
\<close>

definition code_point :: "nat \<Rightarrow> string \<Rightarrow> nat \<times> nat" where
  "code_point u rest =
     (if 0xD800 \<le> u \<and> u < 0xDC00 then
        (case (if take 2 rest = [CHR 0x5C, CHR ''u''] then hex4 (drop 2 rest) else None) of
           Some l \<Rightarrow>
             if 0xDC00 \<le> l \<and> l < 0xE000
             then (0x10000 + (u - 0xD800) * 1024 + (l - 0xDC00), 6)
             else (0xFFFD, 0)
         | None \<Rightarrow> (0xFFFD, 0))
      else if 0xDC00 \<le> u \<and> u < 0xE000 then (0xFFFD, 0)
      else (u, 0))"

text \<open>
  The characters of a string after its opening quote, up to the closing one. A failure
  is the input left at the offending character.
\<close>

fun JSON_string :: "string \<Rightarrow> string \<Rightarrow> string + (string \<times> string)" where
  "JSON_string acc [] = Inl []"
| "JSON_string acc (c # cs) =
     (if c = CHR 0x22 then Inr (rev acc, cs)
      else if c = CHR 0x5C then
        (case cs of
           [] \<Rightarrow> Inl []
         | e # es \<Rightarrow>
             if e = CHR ''u'' then
               (case hex4 es of
                  None \<Rightarrow> Inl (dropWhile isHexDigit es)
                | Some u \<Rightarrow>
                    JSON_string (rev (utf8 (fst (code_point u (drop 4 es)))) @ acc)
                      (drop (4 + snd (code_point u (drop 4 es))) es))
             else
               (case unescape e of
                  None \<Rightarrow> Inl (e # es)
                | Some b \<Rightarrow> JSON_string (b # acc) es))
      else if (of_char c :: nat) < 32 then Inl (c # cs)
      else JSON_string (c # acc) cs)"

text \<open>
  A number: an optional minus, an integer part with no leading zero, an optional
  fraction, an optional exponent. Its value is the rational it denotes.
\<close>

definition scale10 :: "rat \<Rightarrow> int \<Rightarrow> rat" where
  "scale10 m e = (if 0 \<le> e then m * 10 ^ nat e else m / 10 ^ nat (- e))"

definition JSON_number :: "string \<Rightarrow> string + (number \<times> string)" where
  "JSON_number s =
     (let neg = (take 1 s = ''-'');
          s1 = (if neg then drop 1 s else s);
          ip = takeWhile isDigit s1;
          s2 = dropWhile isDigit s1;
          has_frac = (take 1 s2 = ''.'');
          fp = (if has_frac then takeWhile isDigit (drop 1 s2) else []);
          s3 = (if has_frac then dropWhile isDigit (drop 1 s2) else s2);
          has_exp = (take 1 s3 = ''e'' \<or> take 1 s3 = ''E'');
          s4 = (if has_exp then drop 1 s3 else s3);
          eneg = (take 1 s4 = ''-'');
          s5 = (if has_exp \<and> (eneg \<or> take 1 s4 = ''+'') then drop 1 s4 else s4);
          ep = (if has_exp then takeWhile isDigit s5 else []);
          s6 = (if has_exp then dropWhile isDigit s5 else s3);
          ex = (if eneg then - int (digits_value 10 ep) else int (digits_value 10 ep));
          m = scale10 (of_nat (digits_value 10 (ip @ fp))) (ex - int (length fp))
      in if ip = [] then Inl s1
         else if 1 < length ip \<and> take 1 ip = ''0'' then Inl (drop 1 s1)
         else if has_frac \<and> fp = [] then Inl s3
         else if has_exp \<and> ep = [] then Inl s5
         else Inr (Finite (if neg then - m else m), s6))"

text \<open>
  The properties of a parsed object: a repeated name overwrites the value and keeps its
  place, and the names that are array indices are enumerated first, in ascending order.
\<close>

definition CreateDataProperty :: "(string \<times> json) list \<Rightarrow> string \<Rightarrow> json \<Rightarrow> (string \<times> json) list" where
  "CreateDataProperty ps k v =
     (if k \<in> set (map fst ps) then map (\<lambda>p. if fst p = k then (k, v) else p) ps
      else ps @ [(k, v)])"

definition isArrayIndex :: "string \<Rightarrow> bool" where
  "isArrayIndex k =
     (if k = [] then False
      else if take 1 k = ''0'' then k = ''0''
      else list_all isDigit k \<and> digits_value 10 k < 4294967295)"

definition OrdinaryOwnPropertyKeys :: "(string \<times> json) list \<Rightarrow> (string \<times> json) list" where
  "OrdinaryOwnPropertyKeys ps =
     sort_key (\<lambda>p. digits_value 10 (fst p)) (filter (\<lambda>p. isArrayIndex (fst p)) ps)
     @ filter (\<lambda>p. \<not> isArrayIndex (fst p)) ps"

datatype parse_failure = UnexpectedAt string | StackOverflow

text \<open>
  Values, the elements of an array after its first bracket, and the members of an object
  after its first brace. The first argument bounds the number of nested calls, as the
  call stack of the engine does.
\<close>

fun JSON_value :: "nat \<Rightarrow> string \<Rightarrow> parse_failure + (json \<times> string)"
  and JSON_elements :: "nat \<Rightarrow> json list \<Rightarrow> string \<Rightarrow> parse_failure + (json \<times> string)"
  and JSON_members ::
    "nat \<Rightarrow> (string \<times> json) list \<Rightarrow> string \<Rightarrow> parse_failure + (json \<times> string)"
where
  "JSON_value 0 s = Inl StackOverflow"
| "JSON_value (Suc d) s =
     (case skip_ws s of
        [] \<Rightarrow> Inl (UnexpectedAt [])
      | c # cs \<Rightarrow>
          if c = CHR ''{'' then
            (if take 1 (skip_ws cs) = ''}'' then Inr (JObj [], drop 1 (skip_ws cs))
             else JSON_members d [] cs)
          else if c = CHR ''['' then
            (if take 1 (skip_ws cs) = '']'' then Inr (JArr [], drop 1 (skip_ws cs))
             else JSON_elements d [] cs)
          else if c = CHR 0x22 then
            (case JSON_string [] cs of
               Inl r \<Rightarrow> Inl (UnexpectedAt r)
             | Inr (str, r) \<Rightarrow> Inr (JStr str, r))
          else if c = CHR ''-'' \<or> isDigit c then
            (case JSON_number (c # cs) of
               Inl r \<Rightarrow> Inl (UnexpectedAt r)
             | Inr (n, r) \<Rightarrow> Inr (JNum n, r))
          else if take 4 (c # cs) = ''true'' then Inr (JBool True, drop 3 cs)
          else if take 5 (c # cs) = ''false'' then Inr (JBool False, drop 4 cs)
          else if take 4 (c # cs) = ''null'' then Inr (JNull, drop 3 cs)
          else Inl (UnexpectedAt (c # cs)))"
| "JSON_elements 0 acc s = Inl StackOverflow"
| "JSON_elements (Suc d) acc s =
     (case JSON_value d s of
        Inl f \<Rightarrow> Inl f
      | Inr (v, r) \<Rightarrow>
          (case skip_ws r of
             [] \<Rightarrow> Inl (UnexpectedAt [])
           | c # cs \<Rightarrow>
               if c = CHR '','' then JSON_elements d (v # acc) cs
               else if c = CHR '']'' then Inr (JArr (rev (v # acc)), cs)
               else Inl (UnexpectedAt (c # cs))))"
| "JSON_members 0 acc s = Inl StackOverflow"
| "JSON_members (Suc d) acc s =
     (case skip_ws s of
        [] \<Rightarrow> Inl (UnexpectedAt [])
      | q # qs \<Rightarrow>
          if q \<noteq> CHR 0x22 then Inl (UnexpectedAt (q # qs))
          else
            (case JSON_string [] qs of
               Inl r \<Rightarrow> Inl (UnexpectedAt r)
             | Inr (k, r) \<Rightarrow>
                 (case skip_ws r of
                    [] \<Rightarrow> Inl (UnexpectedAt [])
                  | c # cs \<Rightarrow>
                      if c \<noteq> CHR '':'' then Inl (UnexpectedAt (c # cs))
                      else
                        (case JSON_value d cs of
                           Inl f \<Rightarrow> Inl f
                         | Inr (v, r') \<Rightarrow>
                             (case skip_ws r' of
                                [] \<Rightarrow> Inl (UnexpectedAt [])
                              | c' # cs' \<Rightarrow>
                                  if c' = CHR '','' then
                                    JSON_members d (CreateDataProperty acc k v) cs'
                                  else if c' = CHR ''}'' then
                                    Inr (JObj (OrdinaryOwnPropertyKeys
                                                 (CreateDataProperty acc k v)), cs')
                                  else Inl (UnexpectedAt (c' # cs')))))))"

text \<open>
  The message of the \<^verbatim>\<open>SyntaxError\<close>. Its wording differs between versions of the
  engine; this is the one of V8 as shipped with Node 18. No theorem depends on it.
\<close>

definition syntax_error :: "string \<Rightarrow> string \<Rightarrow> error" where
  "syntax_error s r =
     (if r = [] then Error ''Unexpected end of JSON input''
      else Error (''Unexpected token '' @ take 1 r @ '' in JSON at position ''
                  @ nat_toString (length s - length r)))"

definition parse_JSON_text :: "string \<Rightarrow> error + json" where
  "parse_JSON_text s =
     (case JSON_value (2 * length s + 2) s of
        Inl StackOverflow \<Rightarrow> Inl (Error ''Maximum call stack size exceeded'')
      | Inl (UnexpectedAt r) \<Rightarrow> Inl (syntax_error s r)
      | Inr (v, r) \<Rightarrow> if skip_ws r = [] then Inr v else Inl (syntax_error s (skip_ws r)))"

subsection \<open>The digits of the other numbers\<close>

text \<open>
  The decimal expansion of a rational, cut after 17 fractional digits. For the short
  decimals that prices are, these are the digits the engine prints.
\<close>

fun fraction_digits :: "nat \<Rightarrow> nat \<Rightarrow> nat \<Rightarrow> string" where
  "fraction_digits 0 r q = []"
| "fraction_digits (Suc k) r q =
     (if r = 0 then [] else digit_char (r * 10 div q) # fraction_digits k (r * 10 mod q) q)"

definition decimal_toString :: "rat \<Rightarrow> string" where
  "decimal_toString r =
     (let p = fst (quotient_of r); q = nat (snd (quotient_of r)); a = nat \<bar>p\<bar>
      in (if p < 0 then ''-'' else []) @ nat_toString (a div q)
         @ (if a mod q = 0 then [] else ''.'' @ fraction_digits 17 (a mod q) q))"

subsection \<open>The runtime\<close>

definition recording_hmac :: "string \<Rightarrow> string \<Rightarrow> string" where
  "recording_hmac key d = ''hmac-sha256<'' @ key @ ''><'' @ d @ ''>''"

definition runtime_at :: "int \<Rightarrow> (request \<Rightarrow> error + json) \<Rightarrow> runtime" where
  "runtime_at now remote =
     \<lparr>Date_now = now,
      createHmac_sha256_hex = recording_hmac,
      axios_post = remote,
      JSON_parse = parse_JSON_text,
      Number_toString_other = decimal_toString\<rparr>"

text \<open>Two remote services: one that answers every request, one that is unreachable.\<close>

definition answering :: "json \<Rightarrow> request \<Rightarrow> error + json" where
  "answering d req = Inr d"

definition unreachable :: "request \<Rightarrow> error + json" where
  "unreachable req = Inl (Error ''connect ECONNREFUSED'')"

text \<open>Environments of the process, as association lists.\<close>

definition env_of :: "(string \<times> string) list \<Rightarrow> process_env" where
  "env_of vars = map_of vars"


section \<open>Vocabulary of the properties\<close>

text \<open>
  A call of \<^verbatim>\<open>place_order\<close> as a client makes it: the schema first, then the handler
  on what the schema returns.
\<close>

definition call_place_order ::
  "runtime \<Rightarrow> process_env \<Rightarrow> string \<Rightarrow> action \<Rightarrow> order_type \<Rightarrow> number
     \<Rightarrow> number option \<Rightarrow> number option \<Rightarrow> expiration option \<Rightarrow> envelope async option" where
  "call_place_order rt env instrument action order_type quantity limit_price stop_price expiration =
     map_option (registerTools rt env)
       (place_order_schema instrument action order_type quantity limit_price stop_price expiration)"

text \<open>
  Whether the call gets as far as \<^verbatim>\<open>callApi\<close>: every tool does, except
  \<^verbatim>\<open>raw_api_call\<close> on a \<^verbatim>\<open>params\<close> string that \<^verbatim>\<open>JSON.parse\<close> refuses.
\<close>

fun params_parse :: "runtime \<Rightarrow> tool_call \<Rightarrow> bool" where
  "params_parse rt (Raw_api_call c p v) = (case JSON_parse rt p of Inl e \<Rightarrow> False | Inr j \<Rightarrow> True)"
| "params_parse rt call = True"

text \<open>\<^verbatim>\<open>String.prototype.includes\<close>: whether \<open>sub\<close> occurs in \<open>s\<close>.\<close>

fun string_includes :: "string \<Rightarrow> string \<Rightarrow> bool" where
  "string_includes [] sub = (sub = [])"
| "string_includes (c # cs) sub = (take (length sub) (c # cs) = sub \<or> string_includes cs sub)"


text \<open>The environment with both credentials set, and the clock reading used below.\<close>

definition configured :: process_env where
  "configured = env_of [(''TRADERNET_PUBLIC_KEY'', ''pub''), (''TRADERNET_PRIVATE_KEY'', ''priv'')]"

section \<open>Facts about the model\<close>

subsection \<open>Decimal digits\<close>

lemma digit_value_digit_char: "d < 10 \<Longrightarrow> digit_value (digit_char d) = d"
proof -
  assume "d < 10"
  then have "d = 0 \<or> d = 1 \<or> d = 2 \<or> d = 3 \<or> d = 4
      \<or> d = 5 \<or> d = 6 \<or> d = 7 \<or> d = 8 \<or> d = 9"
    by arith
  then show ?thesis
    by (elim disjE) (simp_all add: digit_char_def digit_value_def)
qed

text \<open>
  \<open>nat_toString\<close> writes a number in decimal digits: reading the digits back in radix 10
  gives the number.
\<close>

lemma nat_toString_digits: "digits_value 10 (nat_toString n) = n"
proof (induction n rule: nat_toString.induct)
  case (1 n)
  show ?case
  proof (cases "n < 10")
    case True
    then show ?thesis
      by (simp add: nat_toString.simps[of n] digits_value_def digit_value_digit_char)
  next
    case False
    with 1 have "digits_value 10 (nat_toString (n div 10)) = n div 10" by simp
    with False show ?thesis
      by (simp add: nat_toString.simps[of n] digits_value_def digit_value_digit_char)
  qed
qed

lemma int_toString_1700000000: "int_toString 1700000000 = ''1700000000''"
  by (simp add: int_toString_def nat_toString.simps digit_char_def)

subsection \<open>The two paths of \<^verbatim>\<open>callApi\<close>\<close>

lemma callApi_unconfigured:
  "PUBLIC_KEY env = [] \<or> PRIVATE_KEY env = [] \<Longrightarrow>
   callApi rt env command params =
     (Inl (Error
        ''TRADERNET_PUBLIC_KEY and TRADERNET_PRIVATE_KEY environment variables are required''),
      [])"
  by (simp add: callApi_def reject_def)

lemma callApi_configured:
  "PUBLIC_KEY env \<noteq> [] \<Longrightarrow> PRIVATE_KEY env \<noteq> [] \<Longrightarrow>
   callApi rt env command params =
     post rt (API_BASE env @ ''/'' @ command) (JSON_stringify rt params)
       [(''Content-Type'', ''application/json''),
        (''X-NtApi-PublicKey'', PUBLIC_KEY env),
        (''X-NtApi-Timestamp'', int_toString (Date_now rt div 1000)),
        (''X-NtApi-Sig'',
           createHmac_sha256_hex rt (PRIVATE_KEY env)
             (JSON_stringify rt params @ int_toString (Date_now rt div 1000)))]"
  by (simp add: callApi_def generateSignature_def Let_def)

lemma configured_keys:
  "PUBLIC_KEY configured = ''pub''" "PRIVATE_KEY configured = ''priv''"
  "API_BASE configured = ''https://tradernet.com/api''"
  by (simp_all add: configured_def env_of_def PUBLIC_KEY_def PRIVATE_KEY_def API_BASE_def
        nullish_def)

section \<open>The signed request\<close>

text \<open>
  C1. For every command name and every parameter mapping, when both credentials are
  non-empty, \<^verbatim>\<open>callApi\<close> issues exactly one request: a POST to the base URL, a slash and
  the command, whose body is the JSON serialisation of the mapping itself, with the
  headers \<^verbatim>\<open>Content-Type: application/json\<close>, \<^verbatim>\<open>X-NtApi-PublicKey\<close> (the public
  credential), \<^verbatim>\<open>X-NtApi-Timestamp\<close> (the clock in whole seconds, in decimal digits) and
  \<^verbatim>\<open>X-NtApi-Sig\<close> (the hex HMAC-SHA256, keyed by the private credential, of the body
  followed by the time stamp). That \<open>int_toString\<close> writes decimal digits is
  \<open>nat_toString_digits\<close> above.
\<close>

theorem callApi_signed_post:
  assumes "PUBLIC_KEY env \<noteq> []" and "PRIVATE_KEY env \<noteq> []"
  shows "snd (callApi rt env command params) =
     [\<lparr>http_method = ''POST'',
       url = API_BASE env @ ''/'' @ command,
       data = JSON_stringify rt params,
       headers =
         [(''Content-Type'', ''application/json''),
          (''X-NtApi-PublicKey'', PUBLIC_KEY env),
          (''X-NtApi-Timestamp'', int_toString (Date_now rt div 1000)),
          (''X-NtApi-Sig'',
             createHmac_sha256_hex rt (PRIVATE_KEY env)
               (JSON_stringify rt params @ int_toString (Date_now rt div 1000)))]\<rparr>]"
  using assms by (simp add: callApi_configured post_def Let_def)

theorem callApi_signed_post_witness:
  "PUBLIC_KEY configured \<noteq> [] \<and> PRIVATE_KEY configured \<noteq> []
   \<and> snd (callApi (runtime_at 1700000000123 unreachable) configured ''getOPQ'' (JObj [])) =
     [\<lparr>http_method = ''POST'',
       url = ''https://tradernet.com/api/getOPQ'',
       data = ''{}'',
       headers =
         [(''Content-Type'', ''application/json''),
          (''X-NtApi-PublicKey'', ''pub''),
          (''X-NtApi-Timestamp'', ''1700000000''),
          (''X-NtApi-Sig'', recording_hmac ''priv'' ''{}1700000000'')]\<rparr>]"
  using callApi_signed_post [of configured "runtime_at 1700000000123 unreachable"
      "''getOPQ''" "JObj []"]
  by (simp add: configured_keys runtime_at_def JSON_stringify_def int_toString_1700000000)


section \<open>The handlers as wrappers of \<^verbatim>\<open>callApi\<close>\<close>

lemmas handler_defs =
  get_user_data_def get_portfolio_def place_order_def cancel_order_def
  set_stop_loss_take_profit_def get_security_info_def get_quotes_history_def
  search_tickers_def add_price_alert_def delete_price_alert_def get_security_sessions_def
  raw_api_call_def

text \<open>
  The \<^verbatim>\<open>try\<close>/\<^verbatim>\<open>catch\<close> around one awaited call: the outcome of the call picks
  the envelope, and the requests are those of the call.
\<close>

lemma try_await_resolve:
  "try_catch (await m (\<lambda>d. resolve (ok d))) (\<lambda>e. resolve (err e)) =
     (case fst m of Inl e \<Rightarrow> Inr (err e) | Inr d \<Rightarrow> Inr (ok d), snd m)"
  by (cases m) (simp add: try_catch_def await_def resolve_def split: sum.splits)

lemma await_sync_Inr: "await (sync (Inr j)) f = f j"
  by (simp add: await_def sync_def split: prod.splits)

lemma await_sync_Inl: "await (sync (Inl e)) f = (Inl e, [])"
  by (simp add: await_def sync_def)

lemma try_catch_thrown: "try_catch (Inl e, []) (\<lambda>e. resolve (err e)) = (Inr (err e), [])"
  by (simp add: try_catch_def resolve_def)

text \<open>
  Every call that gets as far as \<^verbatim>\<open>callApi\<close> is the wrapper around one call of it,
  with a command and a mapping that do not depend on the environment.
\<close>

lemma registerTools_callApi:
  assumes "params_parse rt call"
  shows "\<exists>c p. \<forall>env. registerTools rt env call =
     (case fst (callApi rt env c p) of
        Inl e \<Rightarrow> Inr \<lparr>content = [\<lparr>type = ''text'', text' = ''Error: '' @ message e\<rparr>],
                       isError = Some True\<rparr>
      | Inr d \<Rightarrow> Inr \<lparr>content = [\<lparr>type = ''text'', text' = formatResult rt d\<rparr>],
                       isError = None\<rparr>,
      snd (callApi rt env c p))"
proof (cases call)
  case (Raw_api_call c p v)
  with assms obtain j where "JSON_parse rt p = Inr j"
    by (auto split: sum.splits)
  with Raw_api_call show ?thesis
    by (intro exI[of _ c] exI[of _ j])
       (simp add: raw_api_call_def await_sync_Inr try_await_resolve cong: sum.case_cong)
qed (auto simp: handler_defs try_await_resolve cong: sum.case_cong)

lemma raw_api_call_thrown:
  "JSON_parse rt params = Inl e \<Longrightarrow>
   raw_api_call rt env command params use_v2 =
     (Inr \<lparr>content = [\<lparr>type = ''text'', text' = ''Error: '' @ message e\<rparr>],
            isError = Some True\<rparr>, [])"
  by (simp add: raw_api_call_def await_sync_Inl try_catch_thrown)

lemma unconfigured_call:
  assumes "PUBLIC_KEY env = [] \<or> PRIVATE_KEY env = []"
  shows "(\<exists>txt. registerTools rt env call =
            (Inr \<lparr>content = [\<lparr>type = ''text'', text' = txt\<rparr>], isError = Some True\<rparr>, []))
       \<and> (params_parse rt call \<longrightarrow> registerTools rt env call =
            (Inr \<lparr>content = [\<lparr>type = ''text'', text' =
               ''Error: TRADERNET_PUBLIC_KEY and TRADERNET_PRIVATE_KEY environment variables are required''\<rparr>],
                   isError = Some True\<rparr>, []))"
proof (cases "params_parse rt call")
  case True
  then obtain c p where "registerTools rt env call =
     (case fst (callApi rt env c p) of
        Inl e \<Rightarrow> Inr \<lparr>content = [\<lparr>type = ''text'', text' = ''Error: '' @ message e\<rparr>],
                       isError = Some True\<rparr>
      | Inr d \<Rightarrow> Inr \<lparr>content = [\<lparr>type = ''text'', text' = formatResult rt d\<rparr>],
                       isError = None\<rparr>,
      snd (callApi rt env c p))"
    using registerTools_callApi by blast
  with assms show ?thesis
    by (simp add: callApi_unconfigured)
next
  case False
  then obtain c p v e where "call = Raw_api_call c p v" and "JSON_parse rt p = Inl e"
    by (cases call) (auto split: sum.splits)
  with False show ?thesis
    by (simp add: raw_api_call_thrown)
qed

text \<open>The environment is read through the three constants only.\<close>

lemma callApi_cong_env:
  "PUBLIC_KEY env = PUBLIC_KEY env' \<Longrightarrow> PRIVATE_KEY env = PRIVATE_KEY env' \<Longrightarrow>
   API_BASE env = API_BASE env' \<Longrightarrow> callApi rt env c p = callApi rt env' c p"
  by (simp add: callApi_def generateSignature_def)

lemma registerTools_cong_env:
  assumes "PUBLIC_KEY env = PUBLIC_KEY env'" and "PRIVATE_KEY env = PRIVATE_KEY env'"
    and "API_BASE env = API_BASE env'"
  shows "registerTools rt env call = registerTools rt env' call"
  using assms by (cases call) (simp_all add: handler_defs callApi_cong_env [of env env'])

subsection \<open>Runs of the parser\<close>

lemma parse_bad_json:
  "parse_JSON_text ''{bad json'' = Inl (Error ''Unexpected token b in JSON at position 1'')"
  by code_simp

lemma parse_empty_object: "parse_JSON_text ''{}'' = Inr (JObj [])"
  by code_simp

lemma parse_nested:
  "parse_JSON_text ''{\"b\": [1, {\"c\": null}], \"0\": true, \"b\": \"x\"}'' =
     Inr (JObj [(''0'', JBool True), (''b'', JStr ''x'')])"
  by code_simp

section \<open>Missing credentials\<close>

text \<open>
  C2, as the code has it. For every tool and every validated parameter set, if either
  credential is unset, the call returns an error envelope and no request is issued.
  The message of that envelope is the one that names \<^verbatim>\<open>TRADERNET_PUBLIC_KEY\<close> and
  \<^verbatim>\<open>TRADERNET_PRIVATE_KEY\<close> whenever the call gets as far as \<^verbatim>\<open>callApi\<close>, that is
  for every tool except \<^verbatim>\<open>raw_api_call\<close> on a \<^verbatim>\<open>params\<close> string that
  \<^verbatim>\<open>JSON.parse\<close> refuses: that string is parsed before the credentials are looked at.
\<close>

theorem unset_credentials_error_envelope:
  assumes "env ''TRADERNET_PUBLIC_KEY'' = None \<or> env ''TRADERNET_PRIVATE_KEY'' = None"
  shows "(\<exists>txt. registerTools rt env call =
            (Inr \<lparr>content = [\<lparr>type = ''text'', text' = txt\<rparr>], isError = Some True\<rparr>, []))
       \<and> (params_parse rt call \<longrightarrow> registerTools rt env call =
            (Inr \<lparr>content = [\<lparr>type = ''text'', text' =
               ''Error: TRADERNET_PUBLIC_KEY and TRADERNET_PRIVATE_KEY environment variables are required''\<rparr>],
                   isError = Some True\<rparr>, []))"
proof -
  from assms have "PUBLIC_KEY env = [] \<or> PRIVATE_KEY env = []"
    by (auto simp: PUBLIC_KEY_def PRIVATE_KEY_def nullish_def)
  then show ?thesis by (rule unconfigured_call)
qed

theorem unset_credentials_error_envelope_witness:
  "(env_of [] ''TRADERNET_PUBLIC_KEY'' = None \<or> env_of [] ''TRADERNET_PRIVATE_KEY'' = None)
   \<and> params_parse (runtime_at 1700000000123 unreachable) (Raw_api_call ''getOPQ'' ''{}'' False)
   \<and> registerTools (runtime_at 1700000000123 unreachable) (env_of [])
        (Raw_api_call ''getOPQ'' ''{}'' False) =
      (Inr \<lparr>content = [\<lparr>type = ''text'', text' =
         ''Error: TRADERNET_PUBLIC_KEY and TRADERNET_PRIVATE_KEY environment variables are required''\<rparr>],
             isError = Some True\<rparr>, [])"
  using unset_credentials_error_envelope [of "env_of []" "runtime_at 1700000000123 unreachable"
      "Raw_api_call ''getOPQ'' ''{}'' False"]
  by (simp add: env_of_def runtime_at_def parse_empty_object)

text \<open>
  C2 as the specification states it fails: with no credential set, \<^verbatim>\<open>raw_api_call\<close> on
  the string \<^verbatim>\<open>{bad json\<close> returns the message of the parse failure, which names neither
  variable.
\<close>

theorem unset_credentials_raw_api_call_counterexample:
  "env_of [] ''TRADERNET_PUBLIC_KEY'' = None
   \<and> registerTools (runtime_at 1700000000123 unreachable) (env_of [])
        (Raw_api_call ''getOPQ'' ''{bad json'' False) =
      (Inr \<lparr>content = [\<lparr>type = ''text'', text' =
         ''Error: Unexpected token b in JSON at position 1''\<rparr>], isError = Some True\<rparr>, [])
   \<and> \<not> string_includes ''Error: Unexpected token b in JSON at position 1''
          ''TRADERNET_PUBLIC_KEY''"
  by (simp add: env_of_def runtime_at_def parse_bad_json
        raw_api_call_thrown [where e = "Error ''Unexpected token b in JSON at position 1''"])

section \<open>One envelope for every call\<close>

text \<open>
  C3. For every tool of the registry, every validated parameter set, every environment and
  every behaviour of the remote service, the handler is fulfilled (it never rejects) with
  one envelope, which has either the success shape (one text item, no \<^verbatim>\<open>isError\<close>) or
  the error shape (one text item, \<^verbatim>\<open>isError: true\<close>).
\<close>

theorem handler_returns_one_envelope:
  "\<exists>txt. fst (registerTools rt env call) =
            Inr \<lparr>content = [\<lparr>type = ''text'', text' = txt\<rparr>], isError = None\<rparr>
       \<or> fst (registerTools rt env call) =
            Inr \<lparr>content = [\<lparr>type = ''text'', text' = txt\<rparr>], isError = Some True\<rparr>"
proof (cases "params_parse rt call")
  case True
  then obtain c p where "registerTools rt env call =
     (case fst (callApi rt env c p) of
        Inl e \<Rightarrow> Inr \<lparr>content = [\<lparr>type = ''text'', text' = ''Error: '' @ message e\<rparr>],
                       isError = Some True\<rparr>
      | Inr d \<Rightarrow> Inr \<lparr>content = [\<lparr>type = ''text'', text' = formatResult rt d\<rparr>],
                       isError = None\<rparr>,
      snd (callApi rt env c p))"
    using registerTools_callApi by blast
  then show ?thesis
    by (cases "fst (callApi rt env c p)") auto
next
  case False
  then obtain c p v e where "call = Raw_api_call c p v" and "JSON_parse rt p = Inl e"
    by (cases call) (auto split: sum.splits)
  then show ?thesis
    by (simp add: raw_api_call_thrown)
qed

section \<open>\<^verbatim>\<open>raw_api_call\<close>\<close>

text \<open>
  C8. For every \<^verbatim>\<open>params\<close> string that \<^verbatim>\<open>JSON.parse\<close> refuses, whatever the command,
  the flag and the credentials, \<^verbatim>\<open>raw_api_call\<close> returns the error envelope whose text is
  \<^verbatim>\<open>Error: \<close> followed by the message of the parse failure, and issues no request.
\<close>

theorem raw_api_call_invalid_json:
  assumes "JSON_parse rt params = Inl e"
  shows "raw_api_call rt env command params use_v2 =
     (Inr \<lparr>content = [\<lparr>type = ''text'', text' = ''Error: '' @ message e\<rparr>],
            isError = Some True\<rparr>, [])"
  using assms by (simp add: raw_api_call_def await_sync_Inl try_catch_thrown)

theorem raw_api_call_invalid_json_witness:
  "JSON_parse (runtime_at 1700000000123 unreachable) ''{bad json'' =
     Inl (Error ''Unexpected token b in JSON at position 1'')
   \<and> raw_api_call (runtime_at 1700000000123 unreachable) configured ''getOPQ'' ''{bad json'' False =
     (Inr \<lparr>content = [\<lparr>type = ''text'', text' =
        ''Error: Unexpected token b in JSON at position 1''\<rparr>], isError = Some True\<rparr>, [])"
  using raw_api_call_invalid_json [of "runtime_at 1700000000123 unreachable" "''{bad json''"
      "Error ''Unexpected token b in JSON at position 1''" configured "''getOPQ''" False]
  by (simp add: runtime_at_def parse_bad_json)

text \<open>
  C9. For every command, \<^verbatim>\<open>params\<close> string and credential state, \<^verbatim>\<open>raw_api_call\<close> with
  \<^verbatim>\<open>use_v2\<close> true and with \<^verbatim>\<open>use_v2\<close> false return the same envelope and issue the
  same requests.
\<close>

theorem raw_api_call_use_v2_ignored:
  "raw_api_call rt env command params True = raw_api_call rt env command params False"
  by (simp add: raw_api_call_def)

section \<open>An empty credential\<close>

text \<open>
  C10. A credential variable set to the empty string is indistinguishable from an absent
  one: every tool call then returns what it returns with the variable removed from the
  environment, which is an error envelope with no request issued, and the envelope of the
  configuration error whenever the call gets as far as \<^verbatim>\<open>callApi\<close>.
\<close>

theorem empty_credential_is_unset:
  assumes "k = ''TRADERNET_PUBLIC_KEY'' \<or> k = ''TRADERNET_PRIVATE_KEY''"
    and "env k = Some []"
  shows "registerTools rt env call = registerTools rt (env(k := None)) call
       \<and> (\<exists>txt. registerTools rt env call =
            (Inr \<lparr>content = [\<lparr>type = ''text'', text' = txt\<rparr>], isError = Some True\<rparr>, []))
       \<and> (params_parse rt call \<longrightarrow> registerTools rt env call =
            (Inr \<lparr>content = [\<lparr>type = ''text'', text' =
               ''Error: TRADERNET_PUBLIC_KEY and TRADERNET_PRIVATE_KEY environment variables are required''\<rparr>],
                   isError = Some True\<rparr>, []))"
proof -
  from assms have same: "PUBLIC_KEY env = PUBLIC_KEY (env(k := None))"
      "PRIVATE_KEY env = PRIVATE_KEY (env(k := None))"
      "API_BASE env = API_BASE (env(k := None))"
    by (auto simp: PUBLIC_KEY_def PRIVATE_KEY_def API_BASE_def nullish_def)
  from assms have "PUBLIC_KEY env = [] \<or> PRIVATE_KEY env = []"
    by (auto simp: PUBLIC_KEY_def PRIVATE_KEY_def nullish_def)
  then show ?thesis
    using registerTools_cong_env [OF same] unconfigured_call [of env rt call] by simp
qed

theorem empty_credential_is_unset_witness:
  "env_of [(''TRADERNET_PUBLIC_KEY'', ''''), (''TRADERNET_PRIVATE_KEY'', ''priv'')]
      ''TRADERNET_PUBLIC_KEY'' = Some []
   \<and> params_parse (runtime_at 1700000000123 unreachable) Get_portfolio
   \<and> registerTools (runtime_at 1700000000123 unreachable)
        (env_of [(''TRADERNET_PUBLIC_KEY'', ''''), (''TRADERNET_PRIVATE_KEY'', ''priv'')])
        Get_portfolio =
      registerTools (runtime_at 1700000000123 unreachable)
        ((env_of [(''TRADERNET_PUBLIC_KEY'', ''''), (''TRADERNET_PRIVATE_KEY'', ''priv'')])
           (''TRADERNET_PUBLIC_KEY'' := None))
        Get_portfolio
   \<and> registerTools (runtime_at 1700000000123 unreachable)
        (env_of [(''TRADERNET_PUBLIC_KEY'', ''''), (''TRADERNET_PRIVATE_KEY'', ''priv'')])
        Get_portfolio =
      (Inr \<lparr>content = [\<lparr>type = ''text'', text' =
         ''Error: TRADERNET_PUBLIC_KEY and TRADERNET_PRIVATE_KEY environment variables are required''\<rparr>],
             isError = Some True\<rparr>, [])"
  using empty_credential_is_unset [of "''TRADERNET_PUBLIC_KEY''"
      "env_of [(''TRADERNET_PUBLIC_KEY'', ''''), (''TRADERNET_PRIVATE_KEY'', ''priv'')]"
      "runtime_at 1700000000123 unreachable" Get_portfolio]
  by (auto simp: env_of_def)


section \<open>What each tool sends\<close>

subsection \<open>Evaluating the serialiser\<close>

lemmas stringify_simps =
  JSON_stringify_def QuoteJSONString_def escape_char_def Number_toString_def isSafeInteger_def
  int_toString_def nat_toString.simps digit_char_def

lemma parseInt_timeframe:
  "parseInt (timeframe_str tf) =
     Finite (case tf of TF_1 \<Rightarrow> 1 | TF_5 \<Rightarrow> 5 | TF_15 \<Rightarrow> 15 | TF_60 \<Rightarrow> 60 | TF_1440 \<Rightarrow> 1440)"
  by (cases tf)
     (simp_all add: parseInt_def isStrWhiteSpaceChar_def digit_value_def digits_value_def Let_def)

text \<open>
  With both credentials set, the wrapper around one call of \<^verbatim>\<open>callApi\<close> issues the one
  signed request of that call.
\<close>

lemma wrapped_requests:
  assumes "PUBLIC_KEY env \<noteq> []" and "PRIVATE_KEY env \<noteq> []"
  shows "snd (try_catch (await (callApi rt env c p) (\<lambda>d. resolve (ok d))) (\<lambda>e. resolve (err e))) =
     [\<lparr>http_method = ''POST'', url = API_BASE env @ ''/'' @ c, data = JSON_stringify rt p,
       headers =
         [(''Content-Type'', ''application/json''),
          (''X-NtApi-PublicKey'', PUBLIC_KEY env),
          (''X-NtApi-Timestamp'', int_toString (Date_now rt div 1000)),
          (''X-NtApi-Sig'',
             createHmac_sha256_hex rt (PRIVATE_KEY env)
               (JSON_stringify rt p @ int_toString (Date_now rt div 1000)))]\<rparr>]"
  using assms by (simp add: try_await_resolve callApi_configured post_def Let_def)

subsection \<open>\<^verbatim>\<open>place_order\<close>\<close>

text \<open>
  C4. The three tables of \<^verbatim>\<open>place_order\<close> are, by the strings of the enumerations:
  action \<^verbatim>\<open>buy\<close> 1, \<^verbatim>\<open>buy_margin\<close> 2, \<^verbatim>\<open>sell\<close> 3, \<^verbatim>\<open>sell_short\<close> 4; order type
  \<^verbatim>\<open>market\<close> 1, \<^verbatim>\<open>limit\<close> 2, \<^verbatim>\<open>stop\<close> 3, \<^verbatim>\<open>stop_limit\<close> 4; expiration
  \<^verbatim>\<open>day\<close> 1, \<^verbatim>\<open>day_ext\<close> 2, \<^verbatim>\<open>gtc\<close> 3. For every validated invocation (with the
  credentials set, so that something is sent) the body posted to \<^verbatim>\<open>putTradeOrder\<close> is
  the serialisation of the mapping that carries these codes as \<^verbatim>\<open>action_id\<close>,
  \<^verbatim>\<open>order_type_id\<close> and \<^verbatim>\<open>expiration_id\<close>. The witness runs \<^verbatim>\<open>buy\<close>/\<^verbatim>\<open>market\<close>
  (codes 1 and 1) and \<^verbatim>\<open>sell_short\<close>/\<^verbatim>\<open>stop_limit\<close> (codes 4 and 4).
\<close>

theorem place_order_enum_codes:
  assumes "PUBLIC_KEY env \<noteq> []" and "PRIVATE_KEY env \<noteq> []"
  shows "map (\<lambda>a. (action_str a, actionMap a)) [Buy, Buy_margin, Sell, Sell_short] =
           [(''buy'', Finite 1), (''buy_margin'', Finite 2), (''sell'', Finite 3),
            (''sell_short'', Finite 4)]
       \<and> map (\<lambda>t. (order_type_str t, typeMap t)) [Market, Limit, Stop, Stop_limit] =
           [(''market'', Finite 1), (''limit'', Finite 2), (''stop'', Finite 3),
            (''stop_limit'', Finite 4)]
       \<and> map (\<lambda>x. (expiration_str x, expMap x)) [Day, Day_ext, Gtc] =
           [(''day'', Finite 1), (''day_ext'', Finite 2), (''gtc'', Finite 3)]
       \<and> map url (snd (place_order rt env instrument action order_type quantity limit_price
                         stop_price expiration)) = [API_BASE env @ ''/putTradeOrder'']
       \<and> map data (snd (place_order rt env instrument action order_type quantity limit_price
                         stop_price expiration)) =
           [JSON_stringify rt (JObj
             [(''instr_name'', JStr instrument),
              (''action_id'', JNum (actionMap action)),
              (''order_type_id'', JNum (typeMap order_type)),
              (''qty'', JNum quantity),
              (''limit_price'', JNum (case limit_price of None \<Rightarrow> Finite 0 | Some p \<Rightarrow> p)),
              (''stop_price'', JNum (case stop_price of None \<Rightarrow> Finite 0 | Some p \<Rightarrow> p)),
              (''expiration_id'', JNum (expMap expiration))])]"
  using assms by (simp add: place_order_def wrapped_requests nullish_def)

theorem place_order_enum_codes_witness:
  "PUBLIC_KEY configured \<noteq> [] \<and> PRIVATE_KEY configured \<noteq> []
   \<and> map data (snd (place_order (runtime_at 1700000000123 unreachable) configured
        ''AAPL.US'' Buy Market (Finite 10) None None Day)) =
      [''{\"instr_name\":\"AAPL.US\",\"action_id\":1,\"order_type_id\":1,\"qty\":10,\"limit_price\":0,\"stop_price\":0,\"expiration_id\":1}'']
   \<and> map data (snd (place_order (runtime_at 1700000000123 unreachable) configured
        ''AAPL.US'' Sell_short Stop_limit (Finite 10) (Some (Finite 150)) (Some (Finite 140)) Gtc)) =
      [''{\"instr_name\":\"AAPL.US\",\"action_id\":4,\"order_type_id\":4,\"qty\":10,\"limit_price\":150,\"stop_price\":140,\"expiration_id\":3}'']"
  using
    place_order_enum_codes [of configured "runtime_at 1700000000123 unreachable" "''AAPL.US''"
      Buy Market "Finite 10" None None Day]
    place_order_enum_codes [of configured "runtime_at 1700000000123 unreachable" "''AAPL.US''"
      Sell_short Stop_limit "Finite 10" "Some (Finite 150)" "Some (Finite 140)" Gtc]
  by (simp add: configured_keys stringify_simps)

text \<open>
  C5. With the credentials set, the call \<^verbatim>\<open>place_order({instrument: "AAPL.US",
  action: "buy", order_type: "limit", quantity: 10, limit_price: 150})\<close> passes the schema
  (the absent expiration becomes \<^verbatim>\<open>day\<close>), issues exactly one POST to
  \<^verbatim>\<open>putTradeOrder\<close> under the base URL, whose body is the text given in the
  specification (absent stop price 0, expiration code 1), with the signed headers; when
  the remote service answers, the envelope is the success envelope around the response
  pretty-printed with an indentation of two spaces.
\<close>

theorem place_order_end_to_end:
  assumes "PUBLIC_KEY env \<noteq> []" and "PRIVATE_KEY env \<noteq> []"
  shows "call_place_order rt env ''AAPL.US'' Buy Limit (Finite 10) (Some (Finite 150)) None None =
     Some (let body = ''{\"instr_name\":\"AAPL.US\",\"action_id\":1,\"order_type_id\":2,\"qty\":10,\"limit_price\":150,\"stop_price\":0,\"expiration_id\":1}'';
               req = \<lparr>http_method = ''POST'', url = API_BASE env @ ''/putTradeOrder'', data = body,
                 headers =
                  [(''Content-Type'', ''application/json''),
                   (''X-NtApi-PublicKey'', PUBLIC_KEY env),
                   (''X-NtApi-Timestamp'', int_toString (Date_now rt div 1000)),
                   (''X-NtApi-Sig'',
                      createHmac_sha256_hex rt (PRIVATE_KEY env)
                        (body @ int_toString (Date_now rt div 1000)))]\<rparr>
           in (case axios_post rt req of
                 Inl e \<Rightarrow> Inr \<lparr>content = [\<lparr>type = ''text'', text' = ''Error: '' @ message e\<rparr>],
                                isError = Some True\<rparr>
               | Inr d \<Rightarrow> Inr \<lparr>content = [\<lparr>type = ''text'', text' = formatResult rt d\<rparr>],
                                isError = None\<rparr>,
               [req]))"
proof -
  have schema: "place_order_schema ''AAPL.US'' Buy Limit (Finite 10) (Some (Finite 150)) None None =
      Some (Place_order ''AAPL.US'' Buy Limit (Finite 10) (Some (Finite 150)) None Day)"
    by (simp add: place_order_schema_def z_number_def z_int_def z_positive_def nullish_def)
  have body: "JSON_stringify rt (JObj
     [(''instr_name'', JStr ''AAPL.US''), (''action_id'', JNum (Finite 1)),
      (''order_type_id'', JNum (Finite 2)), (''qty'', JNum (Finite 10)),
      (''limit_price'', JNum (Finite 150)), (''stop_price'', JNum (Finite 0)),
      (''expiration_id'', JNum (Finite 1))]) =
   ''{\"instr_name\":\"AAPL.US\",\"action_id\":1,\"order_type_id\":2,\"qty\":10,\"limit_price\":150,\"stop_price\":0,\"expiration_id\":1}''"
    by (simp add: stringify_simps)
  from assms show ?thesis
    by (simp add: call_place_order_def schema place_order_def try_await_resolve
          callApi_configured post_def nullish_def body Let_def cong: sum.case_cong)
qed

theorem place_order_end_to_end_witness:
  "PUBLIC_KEY configured \<noteq> [] \<and> PRIVATE_KEY configured \<noteq> []
   \<and> call_place_order
        (runtime_at 1700000000123 (answering (JObj [(''order_id'', JNum (Finite 7))]))) configured
        ''AAPL.US'' Buy Limit (Finite 10) (Some (Finite 150)) None None =
     Some (Inr \<lparr>content = [\<lparr>type = ''text'', text' = ''{\<newline>  \"order_id\": 7\<newline>}''\<rparr>],
                 isError = None\<rparr>,
           [\<lparr>http_method = ''POST'', url = ''https://tradernet.com/api/putTradeOrder'',
             data = ''{\"instr_name\":\"AAPL.US\",\"action_id\":1,\"order_type_id\":2,\"qty\":10,\"limit_price\":150,\"stop_price\":0,\"expiration_id\":1}'',
             headers =
               [(''Content-Type'', ''application/json''),
                (''X-NtApi-PublicKey'', ''pub''),
                (''X-NtApi-Timestamp'', ''1700000000''),
                (''X-NtApi-Sig'', recording_hmac ''priv''
                   ''{\"instr_name\":\"AAPL.US\",\"action_id\":1,\"order_type_id\":2,\"qty\":10,\"limit_price\":150,\"stop_price\":0,\"expiration_id\":1}1700000000'')]\<rparr>])"
  using place_order_end_to_end [of configured
      "runtime_at 1700000000123 (answering (JObj [(''order_id'', JNum (Finite 7))]))"]
  by (simp add: configured_keys runtime_at_def answering_def int_toString_1700000000
        formatResult_def stringify_simps)

subsection \<open>\<^verbatim>\<open>delete_price_alert\<close>\<close>

text \<open>
  C6. For every \<^verbatim>\<open>alert_id\<close> (the handler is given nothing else), with the credentials
  set, \<^verbatim>\<open>delete_price_alert\<close> posts to \<^verbatim>\<open>togglePriceAlert\<close> the serialisation of
  exactly the mapping \<^verbatim>\<open>{id: alert_id, del: true, quote_type: "ltp",
  notification_type: "email"}\<close>.
\<close>

theorem delete_price_alert_request:
  assumes "PUBLIC_KEY env \<noteq> []" and "PRIVATE_KEY env \<noteq> []"
  shows "map url (snd (delete_price_alert rt env alert_id)) = [API_BASE env @ ''/togglePriceAlert'']
       \<and> map data (snd (delete_price_alert rt env alert_id)) =
           [JSON_stringify rt (JObj
             [(''id'', JNum alert_id), (''del'', JBool True), (''quote_type'', JStr ''ltp''),
              (''notification_type'', JStr ''email'')])]"
  using assms by (simp add: delete_price_alert_def wrapped_requests)

theorem delete_price_alert_request_witness:
  "PUBLIC_KEY configured \<noteq> [] \<and> PRIVATE_KEY configured \<noteq> []
   \<and> map url (snd (delete_price_alert (runtime_at 1700000000123 unreachable) configured (Finite 42))) =
      [''https://tradernet.com/api/togglePriceAlert'']
   \<and> map data (snd (delete_price_alert (runtime_at 1700000000123 unreachable) configured (Finite 42))) =
      [''{\"id\":42,\"del\":true,\"quote_type\":\"ltp\",\"notification_type\":\"email\"}'']"
  using delete_price_alert_request [of configured "runtime_at 1700000000123 unreachable" "Finite 42"]
  by (simp add: configured_keys stringify_simps)

subsection \<open>\<^verbatim>\<open>get_quotes_history\<close>\<close>

text \<open>
  C7. For every validated invocation of \<^verbatim>\<open>get_quotes_history\<close>, whose
  \<^verbatim>\<open>timeframe\<close> is one of the strings \<^verbatim>\<open>1\<close>, \<^verbatim>\<open>5\<close>, \<^verbatim>\<open>15\<close>, \<^verbatim>\<open>60\<close>,
  \<^verbatim>\<open>1440\<close>, the mapping posted to \<^verbatim>\<open>getHloc\<close> carries the integer that the string
  denotes as \<^verbatim>\<open>timeframe\<close> and the fixed property \<^verbatim>\<open>intervalMode: "ClosedRay"\<close>; the
  witness runs \<^verbatim>\<open>timeframe = "60"\<close>, which is sent as the number 60.
\<close>

theorem get_quotes_history_request:
  assumes "PUBLIC_KEY env \<noteq> []" and "PRIVATE_KEY env \<noteq> []"
  shows "map timeframe_str [TF_1, TF_5, TF_15, TF_60, TF_1440] = [''1'', ''5'', ''15'', ''60'', ''1440'']
       \<and> map url (snd (get_quotes_history rt env ticker timeframe date_from date_to count)) =
           [API_BASE env @ ''/getHloc'']
       \<and> map data (snd (get_quotes_history rt env ticker timeframe date_from date_to count)) =
           [JSON_stringify rt (JObj
             [(''id'', JStr ticker),
              (''timeframe'', JNum (Finite
                 (case timeframe of TF_1 \<Rightarrow> 1 | TF_5 \<Rightarrow> 5 | TF_15 \<Rightarrow> 15 | TF_60 \<Rightarrow> 60
                  | TF_1440 \<Rightarrow> 1440))),
              (''date_from'', JStr date_from),
              (''date_to'', JStr date_to),
              (''count'', JNum count),
              (''intervalMode'', JStr ''ClosedRay'')])]"
  using assms by (simp add: get_quotes_history_def wrapped_requests parseInt_timeframe)

theorem get_quotes_history_request_witness:
  "PUBLIC_KEY configured \<noteq> [] \<and> PRIVATE_KEY configured \<noteq> []
   \<and> map data (snd (get_quotes_history (runtime_at 1700000000123 unreachable) configured
        ''AAPL.US'' TF_60 ''01.01.2025 00:00'' ''31.01.2025 23:59'' (Finite 0))) =
      [''{\"id\":\"AAPL.US\",\"timeframe\":60,\"date_from\":\"01.01.2025 00:00\",\"date_to\":\"31.01.2025 23:59\",\"count\":0,\"intervalMode\":\"ClosedRay\"}'']"
  using get_quotes_history_request [of configured "runtime_at 1700000000123 unreachable"
      "''AAPL.US''" TF_60 "''01.01.2025 00:00''" "''31.01.2025 23:59''" "Finite 0"]
  by (simp add: configured_keys stringify_simps)


section \<open>Both shapes, both branches\<close>

text \<open>
  Two runs of a handler with the credentials set: the remote service answers, and it is
  unreachable.
\<close>

theorem handler_returns_one_envelope_witness:
  "fst (registerTools (runtime_at 1700000000123 (answering JNull)) configured Get_user_data) =
     Inr \<lparr>content = [\<lparr>type = ''text'', text' = ''null''\<rparr>], isError = None\<rparr>
   \<and> fst (registerTools (runtime_at 1700000000123 unreachable) configured Get_user_data) =
     Inr \<lparr>content = [\<lparr>type = ''text'', text' = ''Error: connect ECONNREFUSED''\<rparr>],
          isError = Some True\<rparr>"
  using
    handler_returns_one_envelope [of "runtime_at 1700000000123 (answering JNull)" configured
      Get_user_data]
    handler_returns_one_envelope [of "runtime_at 1700000000123 unreachable" configured
      Get_user_data]
  by (simp add: get_user_data_def try_await_resolve callApi_configured configured_keys post_def
        runtime_at_def answering_def unreachable_def formatResult_def)

text \<open>
  A run of \<^verbatim>\<open>raw_api_call\<close> with the flag set: the request still goes to the
  command under the base URL.
\<close>

theorem raw_api_call_use_v2_ignored_witness:
  "raw_api_call (runtime_at 1700000000123 unreachable) configured ''getOPQ'' ''{}'' True =
     raw_api_call (runtime_at 1700000000123 unreachable) configured ''getOPQ'' ''{}'' False
   \<and> map url (snd (raw_api_call (runtime_at 1700000000123 unreachable) configured
                      ''getOPQ'' ''{}'' True)) = [''https://tradernet.com/api/getOPQ'']"
  using raw_api_call_use_v2_ignored [of "runtime_at 1700000000123 unreachable" configured
      "''getOPQ''" "''{}''"]
  by (simp add: raw_api_call_def await_sync_Inr wrapped_requests configured_keys runtime_at_def
        parse_empty_object)

end
